theory Spec2Isabelle
  imports Main "HOL-Library.Word"
begin

unbundle bit_operations_syntax

section \<open>Game Boy Printer protocol definitions (gameboy_printer_protocol.h)\<close>

text \<open>
  The header is a set of integer constants, three generic bit macros, sixteen per-flag
  macros built from them, the status structure and the function \<open>gbp_status_byte\<close>.

  C evaluates the bit expressions of the header in type \<open>int\<close>: the literals \<open>1\<close>, \<open>0\<close>
  and the shift counts are \<open>int\<close>, and a \<open>uint8_t\<close> operand is promoted to \<open>int\<close> with its
  value unchanged. The embedding
  therefore computes in \<^typ>\<open>int\<close>, whose bit operations are those of two's complement,
  and reads a \<open>uint8_t\<close> with \<^const>\<open>uint\<close>. The two places where C converts back to
  \<open>uint8_t\<close> (the return of \<open>gbp_status_byte\<close> and the assignment \<open>X = ...\<close> of the update
  macros) are \<^const>\<open>word_of_int\<close>, which reduces modulo 256. That no intermediate value
  leaves the range of a 16-bit \<open>int\<close> (the narrowest the C standard allows, and the one of
  the AVR boards) for bit positions 0 to 7 is proved below (\<open>gpb_macros_in_int_range\<close>,
  \<open>gbp_status_byte_expr_range\<close>).
\<close>

type_synonym uint8_t = "8 word"

definition INT_MIN :: int where "INT_MIN = - 32768"
definition INT_MAX :: int where "INT_MAX = 32767"

subsection \<open>Sync word\<close>

definition GBP_SYNC_WORD_0 :: int where "GBP_SYNC_WORD_0 = 0x88"
definition GBP_SYNC_WORD_1 :: int where "GBP_SYNC_WORD_1 = 0x33"
definition GBP_SYNC_WORD :: int where "GBP_SYNC_WORD = 0x8833"

subsection \<open>Command byte, compression flag, device ID\<close>

definition GBP_COMMAND_INIT :: int where "GBP_COMMAND_INIT = 0x01"
definition GBP_COMMAND_PRINT :: int where "GBP_COMMAND_PRINT = 0x02"
definition GBP_COMMAND_DATA :: int where "GBP_COMMAND_DATA = 0x04"
definition GBP_COMMAND_BREAK :: int where "GBP_COMMAND_BREAK = 0x08"
definition GBP_COMMAND_INQUIRY :: int where "GBP_COMMAND_INQUIRY = 0x0F"

definition GBP_COMPRESSION_DISABLED :: int where "GBP_COMPRESSION_DISABLED = 0x00"
definition GBP_COMPRESSION_ENABLED :: int where "GBP_COMPRESSION_ENABLED = 0x01"

definition GBP_DEVICE_ID :: int where "GBP_DEVICE_ID = 0x81"

subsection \<open>Print instruction payload\<close>

definition GBP_PRINT_INSTRUCT_PAYLOAD_SIZE :: nat where
  "GBP_PRINT_INSTRUCT_PAYLOAD_SIZE = 4"
definition GBP_PRINT_INSTRUCT_INDEX_NUM_OF_SHEETS :: nat where
  "GBP_PRINT_INSTRUCT_INDEX_NUM_OF_SHEETS = 0"
definition GBP_PRINT_INSTRUCT_INDEX_NUM_OF_LINEFEED :: nat where
  "GBP_PRINT_INSTRUCT_INDEX_NUM_OF_LINEFEED = 1"
definition GBP_PRINT_INSTRUCT_INDEX_PALETTE_VALUE :: nat where
  "GBP_PRINT_INSTRUCT_INDEX_PALETTE_VALUE = 2"
definition GBP_PRINT_INSTRUCT_INDEX_PRINT_DENSITY :: nat where
  "GBP_PRINT_INSTRUCT_INDEX_PRINT_DENSITY = 3"

subsection \<open>Status byte: bit positions and masks\<close>

definition GBP_STATUS_BIT_LOWBAT :: nat where "GBP_STATUS_BIT_LOWBAT = 7"
definition GBP_STATUS_BIT_ER2 :: nat where "GBP_STATUS_BIT_ER2 = 6"
definition GBP_STATUS_BIT_ER1 :: nat where "GBP_STATUS_BIT_ER1 = 5"
definition GBP_STATUS_BIT_ER0 :: nat where "GBP_STATUS_BIT_ER0 = 4"
definition GBP_STATUS_BIT_UNTRAN :: nat where "GBP_STATUS_BIT_UNTRAN = 3"
definition GBP_STATUS_BIT_FULL :: nat where "GBP_STATUS_BIT_FULL = 2"
definition GBP_STATUS_BIT_BUSY :: nat where "GBP_STATUS_BIT_BUSY = 1"
definition GBP_STATUS_BIT_SUM :: nat where "GBP_STATUS_BIT_SUM = 0"

text \<open>The masks are written with literal shift counts in the header: \<open>(1<<7)\<close> ... \<open>(1<<0)\<close>.\<close>

definition GBP_STATUS_MASK_LOWBAT :: int where "GBP_STATUS_MASK_LOWBAT = push_bit 7 1"
definition GBP_STATUS_MASK_ER2 :: int where "GBP_STATUS_MASK_ER2 = push_bit 6 1"
definition GBP_STATUS_MASK_ER1 :: int where "GBP_STATUS_MASK_ER1 = push_bit 5 1"
definition GBP_STATUS_MASK_ER0 :: int where "GBP_STATUS_MASK_ER0 = push_bit 4 1"
definition GBP_STATUS_MASK_UNTRAN :: int where "GBP_STATUS_MASK_UNTRAN = push_bit 3 1"
definition GBP_STATUS_MASK_FULL :: int where "GBP_STATUS_MASK_FULL = push_bit 2 1"
definition GBP_STATUS_MASK_BUSY :: int where "GBP_STATUS_MASK_BUSY = push_bit 1 1"
definition GBP_STATUS_MASK_SUM :: int where "GBP_STATUS_MASK_SUM = push_bit 0 1"

subsection \<open>Bit macros\<close>

text \<open>
  \<open>gpb_setBit(X,BITPOS) = (X | (1 << BITPOS))\<close>,
  \<open>gpb_unsetBit(X,BITPOS) = (X & (~(1 << BITPOS)))\<close>,
  \<open>gpb_getBit(X,BITPOS) = ((X & (1 << BITPOS)) > 0)\<close>; the comparison yields the \<open>int\<close>
  1 or 0. \<open>X\<close> is the operand after promotion. The macro bodies do not parenthesise
  their parameters: the functions take \<open>X\<close> and \<open>BITPOS\<close> as values, which is what the
  expansion computes for a variable, a literal or a parenthesised argument.
\<close>

definition gpb_setBit :: "int \<Rightarrow> nat \<Rightarrow> int" where
  "gpb_setBit X BITPOS = X OR (push_bit BITPOS 1)"

definition gpb_unsetBit :: "int \<Rightarrow> nat \<Rightarrow> int" where
  "gpb_unsetBit X BITPOS = X AND (NOT (push_bit BITPOS 1))"

definition gpb_getBit :: "int \<Rightarrow> nat \<Rightarrow> int" where
  "gpb_getBit X BITPOS = (if (X AND (push_bit BITPOS 1)) > 0 then 1 else 0)"

subsection \<open>Per-flag macros\<close>

text \<open>
  \<open>gpb_status_bit_update_f(X,SET)\<close> is
  \<open>X = SET ? gpb_setBit(X, BIT_f) : gpb_unsetBit(X, BIT_f)\<close>: the status byte \<open>X\<close> is read
  (promoted to \<open>int\<close>), and the \<open>int\<close> result is stored back into the \<open>uint8_t\<close>. The
  function returns the new value of \<open>X\<close>; \<open>SET\<close> is the truth value of the condition.
\<close>

definition gpb_status_bit_update_low_battery :: "uint8_t \<Rightarrow> bool \<Rightarrow> uint8_t" where
  "gpb_status_bit_update_low_battery X SET =
     word_of_int (if SET then gpb_setBit (uint X) GBP_STATUS_BIT_LOWBAT
                  else gpb_unsetBit (uint X) GBP_STATUS_BIT_LOWBAT)"

definition gpb_status_bit_update_other_error :: "uint8_t \<Rightarrow> bool \<Rightarrow> uint8_t" where
  "gpb_status_bit_update_other_error X SET =
     word_of_int (if SET then gpb_setBit (uint X) GBP_STATUS_BIT_ER2
                  else gpb_unsetBit (uint X) GBP_STATUS_BIT_ER2)"

definition gpb_status_bit_update_paper_jam :: "uint8_t \<Rightarrow> bool \<Rightarrow> uint8_t" where
  "gpb_status_bit_update_paper_jam X SET =
     word_of_int (if SET then gpb_setBit (uint X) GBP_STATUS_BIT_ER1
                  else gpb_unsetBit (uint X) GBP_STATUS_BIT_ER1)"

definition gpb_status_bit_update_packet_error :: "uint8_t \<Rightarrow> bool \<Rightarrow> uint8_t" where
  "gpb_status_bit_update_packet_error X SET =
     word_of_int (if SET then gpb_setBit (uint X) GBP_STATUS_BIT_ER0
                  else gpb_unsetBit (uint X) GBP_STATUS_BIT_ER0)"

definition gpb_status_bit_update_unprocessed_data :: "uint8_t \<Rightarrow> bool \<Rightarrow> uint8_t" where
  "gpb_status_bit_update_unprocessed_data X SET =
     word_of_int (if SET then gpb_setBit (uint X) GBP_STATUS_BIT_UNTRAN
                  else gpb_unsetBit (uint X) GBP_STATUS_BIT_UNTRAN)"

definition gpb_status_bit_update_print_buffer_full :: "uint8_t \<Rightarrow> bool \<Rightarrow> uint8_t" where
  "gpb_status_bit_update_print_buffer_full X SET =
     word_of_int (if SET then gpb_setBit (uint X) GBP_STATUS_BIT_FULL
                  else gpb_unsetBit (uint X) GBP_STATUS_BIT_FULL)"

definition gpb_status_bit_update_printer_busy :: "uint8_t \<Rightarrow> bool \<Rightarrow> uint8_t" where
  "gpb_status_bit_update_printer_busy X SET =
     word_of_int (if SET then gpb_setBit (uint X) GBP_STATUS_BIT_BUSY
                  else gpb_unsetBit (uint X) GBP_STATUS_BIT_BUSY)"

definition gpb_status_bit_update_checksum_error :: "uint8_t \<Rightarrow> bool \<Rightarrow> uint8_t" where
  "gpb_status_bit_update_checksum_error X SET =
     word_of_int (if SET then gpb_setBit (uint X) GBP_STATUS_BIT_SUM
                  else gpb_unsetBit (uint X) GBP_STATUS_BIT_SUM)"

text \<open>\<open>gpb_status_bit_getbit_f(X)\<close> is \<open>gpb_getBit(X, BIT_f)\<close> on the status byte \<open>X\<close>.\<close>

definition gpb_status_bit_getbit_low_battery :: "uint8_t \<Rightarrow> int" where
  "gpb_status_bit_getbit_low_battery X = gpb_getBit (uint X) GBP_STATUS_BIT_LOWBAT"

definition gpb_status_bit_getbit_other_error :: "uint8_t \<Rightarrow> int" where
  "gpb_status_bit_getbit_other_error X = gpb_getBit (uint X) GBP_STATUS_BIT_ER2"

definition gpb_status_bit_getbit_paper_jam :: "uint8_t \<Rightarrow> int" where
  "gpb_status_bit_getbit_paper_jam X = gpb_getBit (uint X) GBP_STATUS_BIT_ER1"

definition gpb_status_bit_getbit_packet_error :: "uint8_t \<Rightarrow> int" where
  "gpb_status_bit_getbit_packet_error X = gpb_getBit (uint X) GBP_STATUS_BIT_ER0"

definition gpb_status_bit_getbit_unprocessed_data :: "uint8_t \<Rightarrow> int" where
  "gpb_status_bit_getbit_unprocessed_data X = gpb_getBit (uint X) GBP_STATUS_BIT_UNTRAN"

definition gpb_status_bit_getbit_print_buffer_full :: "uint8_t \<Rightarrow> int" where
  "gpb_status_bit_getbit_print_buffer_full X = gpb_getBit (uint X) GBP_STATUS_BIT_FULL"

definition gpb_status_bit_getbit_printer_busy :: "uint8_t \<Rightarrow> int" where
  "gpb_status_bit_getbit_printer_busy X = gpb_getBit (uint X) GBP_STATUS_BIT_BUSY"

definition gpb_status_bit_getbit_checksum_error :: "uint8_t \<Rightarrow> int" where
  "gpb_status_bit_getbit_checksum_error X = gpb_getBit (uint X) GBP_STATUS_BIT_SUM"

subsection \<open>Status structure and status byte\<close>

text \<open>The fields in the order of the \<open>struct\<close> (\<open>paper_jam\<close> precedes \<open>other_error\<close> there).\<close>

record gbp_printer_status_t =
  low_battery :: bool
  paper_jam :: bool
  other_error :: bool
  packet_error :: bool
  unprocessed_data :: bool
  print_buffer_full :: bool
  printer_busy :: bool
  checksum_error :: bool

text \<open>
  The expression after \<open>return\<close>, of type \<open>int\<close>: eight terms \<open>((flag ? 1 : 0) << BIT)\<close>
  joined by \<open>|\<close>, in the order of the source.
\<close>

definition gbp_status_byte_expr :: "gbp_printer_status_t \<Rightarrow> int" where
  "gbp_status_byte_expr s =
     push_bit GBP_STATUS_BIT_LOWBAT (if low_battery s then 1 else 0)
     OR push_bit GBP_STATUS_BIT_ER2 (if other_error s then 1 else 0)
     OR push_bit GBP_STATUS_BIT_ER1 (if paper_jam s then 1 else 0)
     OR push_bit GBP_STATUS_BIT_ER0 (if packet_error s then 1 else 0)
     OR push_bit GBP_STATUS_BIT_UNTRAN (if unprocessed_data s then 1 else 0)
     OR push_bit GBP_STATUS_BIT_FULL (if print_buffer_full s then 1 else 0)
     OR push_bit GBP_STATUS_BIT_BUSY (if printer_busy s then 1 else 0)
     OR push_bit GBP_STATUS_BIT_SUM (if checksum_error s then 1 else 0)"

text \<open>
  The function, on the structure its argument points to (it only reads the eight fields);
  the result is a \<open>uint8_t\<close>.
\<close>

definition gbp_status_byte :: "gbp_printer_status_t \<Rightarrow> uint8_t" where
  "gbp_status_byte s = word_of_int (gbp_status_byte_expr s)"

text \<open>
  The packing as the specification words it: the bitwise OR, over the eight flags, of
  \<open>flag ? (1 << bitpos) : 0\<close>, with the bit positions of the status-bit table.
\<close>

definition spec_status_byte :: "gbp_printer_status_t \<Rightarrow> int" where
  "spec_status_byte s =
     (if low_battery s then push_bit 7 1 else 0)
     OR (if other_error s then push_bit 6 1 else 0)
     OR (if paper_jam s then push_bit 5 1 else 0)
     OR (if packet_error s then push_bit 4 1 else 0)
     OR (if unprocessed_data s then push_bit 3 1 else 0)
     OR (if print_buffer_full s then push_bit 2 1 else 0)
     OR (if printer_busy s then push_bit 1 1 else 0)
     OR (if checksum_error s then push_bit 0 1 else 0)"

section \<open>Properties\<close>

subsection \<open>Auxiliary facts\<close>

lemmas status_bit_defs =
  GBP_STATUS_BIT_LOWBAT_def GBP_STATUS_BIT_ER2_def GBP_STATUS_BIT_ER1_def
  GBP_STATUS_BIT_ER0_def GBP_STATUS_BIT_UNTRAN_def GBP_STATUS_BIT_FULL_def
  GBP_STATUS_BIT_BUSY_def GBP_STATUS_BIT_SUM_def

lemmas status_mask_defs =
  GBP_STATUS_MASK_LOWBAT_def GBP_STATUS_MASK_ER2_def GBP_STATUS_MASK_ER1_def
  GBP_STATUS_MASK_ER0_def GBP_STATUS_MASK_UNTRAN_def GBP_STATUS_MASK_FULL_def
  GBP_STATUS_MASK_BUSY_def GBP_STATUS_MASK_SUM_def

lemmas update_defs =
  gpb_status_bit_update_low_battery_def gpb_status_bit_update_other_error_def
  gpb_status_bit_update_paper_jam_def gpb_status_bit_update_packet_error_def
  gpb_status_bit_update_unprocessed_data_def gpb_status_bit_update_print_buffer_full_def
  gpb_status_bit_update_printer_busy_def gpb_status_bit_update_checksum_error_def

lemmas getbit_defs =
  gpb_status_bit_getbit_low_battery_def gpb_status_bit_getbit_other_error_def
  gpb_status_bit_getbit_paper_jam_def gpb_status_bit_getbit_packet_error_def
  gpb_status_bit_getbit_unprocessed_data_def gpb_status_bit_getbit_print_buffer_full_def
  gpb_status_bit_getbit_printer_busy_def gpb_status_bit_getbit_checksum_error_def

text \<open>The three generic macros on an arbitrary \<open>int\<close>, bit by bit.\<close>

lemma bit_gpb_setBit: "bit (gpb_setBit X p) n = (n = p \<or> bit X n)"
  by (auto simp add: gpb_setBit_def bit_simps)

lemma bit_gpb_unsetBit: "bit (gpb_unsetBit X p) n = (n \<noteq> p \<and> bit X n)"
  by (auto simp add: gpb_unsetBit_def bit_simps)

lemma and_shifted_one_pos: "(0 < X AND push_bit p (1::int)) = bit X p"
proof -
  have eq: "X AND push_bit p 1 = (if bit X p then push_bit p 1 else 0)"
    by (rule bit_eqI) (auto simp add: bit_simps)
  show ?thesis by (subst eq) simp
qed

lemma gpb_getBit_bit: "gpb_getBit X p = (if bit X p then 1 else 0)"
  unfolding gpb_getBit_def and_shifted_one_pos by (rule refl)

text \<open>On a promoted byte they agree with the bit operations of the byte itself.\<close>

lemma gpb_setBit_uint: "p < 8 \<Longrightarrow> gpb_setBit (uint (x::uint8_t)) p = uint (set_bit p x)"
  by (rule bit_eqI) (auto simp add: bit_gpb_setBit bit_simps)

lemma gpb_unsetBit_uint: "gpb_unsetBit (uint (x::uint8_t)) p = uint (unset_bit p x)"
  by (rule bit_eqI) (auto simp add: bit_gpb_unsetBit bit_simps)

lemma gpb_getBit_uint: "gpb_getBit (uint (x::uint8_t)) p = (if bit x p then 1 else 0)"
  by (auto simp add: gpb_getBit_bit bit_uint_iff dest: bit_imp_le_length)

text \<open>
  No overflow: for a bit position of a byte, the shifted one, its complement and the
  results of the macros on a promoted byte all lie within a 16-bit \<open>int\<close>, the latter
  within a byte.
\<close>

lemma shifted_one_range:
  assumes "p \<le> 7"
  shows "1 \<le> push_bit p (1::int) \<and> push_bit p (1::int) \<le> 128"
proof -
  from assms have "(2::int) ^ p \<le> 2 ^ 7"
    by (intro power_increasing) simp_all
  then show ?thesis by (simp add: push_bit_eq_mult)
qed

lemma gpb_macros_in_int_range:
  fixes x :: uint8_t
  assumes "p \<le> 7"
  shows "INT_MIN \<le> push_bit p (1::int)" "push_bit p (1::int) \<le> INT_MAX"
    "INT_MIN \<le> NOT (push_bit p (1::int))" "NOT (push_bit p (1::int)) \<le> INT_MAX"
    "0 \<le> gpb_setBit (uint x) p" "gpb_setBit (uint x) p \<le> 255"
    "0 \<le> gpb_unsetBit (uint x) p" "gpb_unsetBit (uint x) p \<le> 255"
    "0 \<le> uint x AND push_bit p 1" "uint x AND push_bit p 1 \<le> 255"
proof -
  from assms have p8: "p < 8" by simp
  note sr = shifted_one_range [OF assms]
  show "INT_MIN \<le> push_bit p (1::int)" "push_bit p (1::int) \<le> INT_MAX"
    "INT_MIN \<le> NOT (push_bit p (1::int))" "NOT (push_bit p (1::int)) \<le> INT_MAX"
    using sr unfolding INT_MIN_def INT_MAX_def not_int_def by linarith+
  have b: "uint y \<le> 255" for y :: uint8_t
    using uint_lt2p [of y] by simp
  show "0 \<le> gpb_setBit (uint x) p" "gpb_setBit (uint x) p \<le> 255"
    using b [of "set_bit p x"] by (simp_all add: gpb_setBit_uint [OF p8])
  show "0 \<le> gpb_unsetBit (uint x) p" "gpb_unsetBit (uint x) p \<le> 255"
    using b [of "unset_bit p x"] by (simp_all add: gpb_unsetBit_uint)
  show "0 \<le> uint x AND push_bit p 1" by simp
  have "uint x AND push_bit p 1 \<le> uint x" by (rule AND_upper1) simp
  with b [of x] show "uint x AND push_bit p 1 \<le> 255" by simp
qed

text \<open>One update macro, for any bit position of the byte.\<close>

lemma bit_update_byte:
  fixes x :: uint8_t
  assumes "p < 8"
  shows "bit (word_of_int (if SET then gpb_setBit (uint x) p
                           else gpb_unsetBit (uint x) p) :: uint8_t) n
         = (if n = p then SET else bit x n)"
  using assms
  by (auto simp add: gpb_setBit_uint gpb_unsetBit_uint bit_simps dest: bit_imp_le_length)

text \<open>The returned expression: its range, so that the conversion to \<open>uint8_t\<close> loses nothing.\<close>

lemma gbp_status_byte_expr_range:
  "0 \<le> gbp_status_byte_expr s \<and> gbp_status_byte_expr s \<le> 255"
  by (simp add: gbp_status_byte_expr_def status_bit_defs)

lemma uint_gbp_status_byte: "uint (gbp_status_byte s) = gbp_status_byte_expr s"
  using gbp_status_byte_expr_range [of s]
  by (simp add: gbp_status_byte_def uint_word_of_int)

lemma gbp_status_byte_expr_spec: "gbp_status_byte_expr s = spec_status_byte s"
  by (simp add: gbp_status_byte_expr_def spec_status_byte_def status_bit_defs)

lemma bit_gbp_status_byte_low_battery: "bit (gbp_status_byte s) 7 = low_battery s"
  by (simp add: gbp_status_byte_def gbp_status_byte_expr_def status_bit_defs bit_simps)

lemma bit_gbp_status_byte_other_error: "bit (gbp_status_byte s) 6 = other_error s"
  by (simp add: gbp_status_byte_def gbp_status_byte_expr_def status_bit_defs bit_simps)

lemma bit_gbp_status_byte_paper_jam: "bit (gbp_status_byte s) 5 = paper_jam s"
  by (simp add: gbp_status_byte_def gbp_status_byte_expr_def status_bit_defs bit_simps)

lemma bit_gbp_status_byte_packet_error: "bit (gbp_status_byte s) 4 = packet_error s"
  by (simp add: gbp_status_byte_def gbp_status_byte_expr_def status_bit_defs bit_simps)

lemma bit_gbp_status_byte_unprocessed_data: "bit (gbp_status_byte s) 3 = unprocessed_data s"
  by (simp add: gbp_status_byte_def gbp_status_byte_expr_def status_bit_defs bit_simps)

lemma bit_gbp_status_byte_print_buffer_full: "bit (gbp_status_byte s) 2 = print_buffer_full s"
  by (simp add: gbp_status_byte_def gbp_status_byte_expr_def status_bit_defs bit_simps)

lemma bit_gbp_status_byte_printer_busy: "bit (gbp_status_byte s) 1 = printer_busy s"
  by (simp add: gbp_status_byte_def gbp_status_byte_expr_def status_bit_defs bit_simps)

lemma bit_gbp_status_byte_checksum_error: "bit (gbp_status_byte s) 0 = checksum_error s"
  by (simp add: gbp_status_byte_def gbp_status_byte_expr_def status_bit_defs bit_simps)

lemmas bit_gbp_status_byte =
  bit_gbp_status_byte_low_battery bit_gbp_status_byte_other_error
  bit_gbp_status_byte_paper_jam bit_gbp_status_byte_packet_error
  bit_gbp_status_byte_unprocessed_data bit_gbp_status_byte_print_buffer_full
  bit_gbp_status_byte_printer_busy bit_gbp_status_byte_checksum_error

subsection \<open>The status byte\<close>

text \<open>
  C1. For every status record, bit 7 of \<open>gbp_status_byte\<close> is set exactly when
  \<open>low_battery\<close> is true, bit 6 when \<open>other_error\<close>, bit 5 when \<open>paper_jam\<close>, bit 4 when
  \<open>packet_error\<close>, bit 3 when \<open>unprocessed_data\<close>, bit 2 when \<open>print_buffer_full\<close>, bit 1
  when \<open>printer_busy\<close> and bit 0 when \<open>checksum_error\<close>. The byte, and the \<open>int\<close> expression
  it is converted from, equal the bitwise OR over the eight flags of
  \<open>flag ? (1 << bitpos) : 0\<close>, and that value lies between 0 and 255.
\<close>

theorem gbp_status_byte_bits:
  "bit (gbp_status_byte s) 7 = low_battery s
   \<and> bit (gbp_status_byte s) 6 = other_error s
   \<and> bit (gbp_status_byte s) 5 = paper_jam s
   \<and> bit (gbp_status_byte s) 4 = packet_error s
   \<and> bit (gbp_status_byte s) 3 = unprocessed_data s
   \<and> bit (gbp_status_byte s) 2 = print_buffer_full s
   \<and> bit (gbp_status_byte s) 1 = printer_busy s
   \<and> bit (gbp_status_byte s) 0 = checksum_error s
   \<and> uint (gbp_status_byte s) = spec_status_byte s
   \<and> gbp_status_byte_expr s = spec_status_byte s
   \<and> 0 \<le> spec_status_byte s \<and> spec_status_byte s \<le> 255
   \<and> unat (gbp_status_byte s) < 2 ^ 8"
proof -
  have "unat (gbp_status_byte s) < 2 ^ LENGTH(8)"
    by (rule unsigned_less)
  then have "unat (gbp_status_byte s) < 2 ^ 8"
    by simp
  moreover have "0 \<le> spec_status_byte s \<and> spec_status_byte s \<le> 255"
    using gbp_status_byte_expr_range [of s] by (simp add: gbp_status_byte_expr_spec)
  moreover have "uint (gbp_status_byte s) = spec_status_byte s"
    by (simp add: uint_gbp_status_byte gbp_status_byte_expr_spec)
  ultimately show ?thesis
    using bit_gbp_status_byte [of s] by (simp add: gbp_status_byte_expr_spec)
qed

text \<open>
  C2. Packing any status record with \<open>gbp_status_byte\<close> and reading the byte with the eight
  macros \<open>gpb_status_bit_getbit_*\<close> gives 1 for each flag that was true and 0 for each flag
  that was false; the record rebuilt from the eight reads is the record that was packed.
\<close>

theorem gbp_status_byte_roundtrip:
  "gpb_status_bit_getbit_low_battery (gbp_status_byte s) = (if low_battery s then 1 else 0)
   \<and> gpb_status_bit_getbit_other_error (gbp_status_byte s) = (if other_error s then 1 else 0)
   \<and> gpb_status_bit_getbit_paper_jam (gbp_status_byte s) = (if paper_jam s then 1 else 0)
   \<and> gpb_status_bit_getbit_packet_error (gbp_status_byte s) = (if packet_error s then 1 else 0)
   \<and> gpb_status_bit_getbit_unprocessed_data (gbp_status_byte s)
       = (if unprocessed_data s then 1 else 0)
   \<and> gpb_status_bit_getbit_print_buffer_full (gbp_status_byte s)
       = (if print_buffer_full s then 1 else 0)
   \<and> gpb_status_bit_getbit_printer_busy (gbp_status_byte s) = (if printer_busy s then 1 else 0)
   \<and> gpb_status_bit_getbit_checksum_error (gbp_status_byte s)
       = (if checksum_error s then 1 else 0)
   \<and> \<lparr>low_battery = gpb_status_bit_getbit_low_battery (gbp_status_byte s) \<noteq> 0,
       paper_jam = gpb_status_bit_getbit_paper_jam (gbp_status_byte s) \<noteq> 0,
       other_error = gpb_status_bit_getbit_other_error (gbp_status_byte s) \<noteq> 0,
       packet_error = gpb_status_bit_getbit_packet_error (gbp_status_byte s) \<noteq> 0,
       unprocessed_data = gpb_status_bit_getbit_unprocessed_data (gbp_status_byte s) \<noteq> 0,
       print_buffer_full = gpb_status_bit_getbit_print_buffer_full (gbp_status_byte s) \<noteq> 0,
       printer_busy = gpb_status_bit_getbit_printer_busy (gbp_status_byte s) \<noteq> 0,
       checksum_error = gpb_status_bit_getbit_checksum_error (gbp_status_byte s) \<noteq> 0\<rparr> = s"
  using bit_gbp_status_byte [of s]
  by (simp add: getbit_defs status_bit_defs gpb_getBit_uint)

text \<open>
  C3. The five spot values: no flag gives 0x00, all flags give 0xFF, \<open>low_battery\<close> alone
  gives 0x80, \<open>checksum_error\<close> alone gives 0x01, and \<open>printer_busy\<close> with
  \<open>unprocessed_data\<close> gives 0x0A.
\<close>

theorem gbp_status_byte_spot_values:
  "gbp_status_byte
     \<lparr>low_battery = False, paper_jam = False,
      other_error = False, packet_error = False,
      unprocessed_data = False, print_buffer_full = False,
      printer_busy = False, checksum_error = False\<rparr> = 0x00
   \<and> gbp_status_byte
     \<lparr>low_battery = True, paper_jam = True,
      other_error = True, packet_error = True,
      unprocessed_data = True, print_buffer_full = True,
      printer_busy = True, checksum_error = True\<rparr> = 0xFF
   \<and> gbp_status_byte
     \<lparr>low_battery = True, paper_jam = False,
      other_error = False, packet_error = False,
      unprocessed_data = False, print_buffer_full = False,
      printer_busy = False, checksum_error = False\<rparr> = 0x80
   \<and> gbp_status_byte
     \<lparr>low_battery = False, paper_jam = False,
      other_error = False, packet_error = False,
      unprocessed_data = False, print_buffer_full = False,
      printer_busy = False, checksum_error = True\<rparr> = 0x01
   \<and> gbp_status_byte
     \<lparr>low_battery = False, paper_jam = False,
      other_error = False, packet_error = False,
      unprocessed_data = True, print_buffer_full = False,
      printer_busy = True, checksum_error = False\<rparr> = 0x0A"
  by (simp add: gbp_status_byte_def gbp_status_byte_expr_def status_bit_defs)

text \<open>
  C4. Each of the eight masks \<open>GBP_STATUS_MASK_*\<close> is a power of two with exactly one bit
  set, equals 1 shifted left by the matching \<open>GBP_STATUS_BIT_*\<close> position, no two masks
  share a bit, and for every status record the byte of \<open>gbp_status_byte\<close> is the bitwise
  OR of the masks of the flags that are true.
\<close>

theorem status_masks_one_bit_disjoint:
  "GBP_STATUS_MASK_LOWBAT = 2 ^ 7
   \<and> GBP_STATUS_MASK_ER2 = 2 ^ 6
   \<and> GBP_STATUS_MASK_ER1 = 2 ^ 5
   \<and> GBP_STATUS_MASK_ER0 = 2 ^ 4
   \<and> GBP_STATUS_MASK_UNTRAN = 2 ^ 3
   \<and> GBP_STATUS_MASK_FULL = 2 ^ 2
   \<and> GBP_STATUS_MASK_BUSY = 2 ^ 1
   \<and> GBP_STATUS_MASK_SUM = 2 ^ 0
   \<and> GBP_STATUS_MASK_LOWBAT = push_bit GBP_STATUS_BIT_LOWBAT 1
   \<and> GBP_STATUS_MASK_ER2 = push_bit GBP_STATUS_BIT_ER2 1
   \<and> GBP_STATUS_MASK_ER1 = push_bit GBP_STATUS_BIT_ER1 1
   \<and> GBP_STATUS_MASK_ER0 = push_bit GBP_STATUS_BIT_ER0 1
   \<and> GBP_STATUS_MASK_UNTRAN = push_bit GBP_STATUS_BIT_UNTRAN 1
   \<and> GBP_STATUS_MASK_FULL = push_bit GBP_STATUS_BIT_FULL 1
   \<and> GBP_STATUS_MASK_BUSY = push_bit GBP_STATUS_BIT_BUSY 1
   \<and> GBP_STATUS_MASK_SUM = push_bit GBP_STATUS_BIT_SUM 1
   \<and> bit GBP_STATUS_MASK_LOWBAT n = (n = 7)
   \<and> bit GBP_STATUS_MASK_ER2 n = (n = 6)
   \<and> bit GBP_STATUS_MASK_ER1 n = (n = 5)
   \<and> bit GBP_STATUS_MASK_ER0 n = (n = 4)
   \<and> bit GBP_STATUS_MASK_UNTRAN n = (n = 3)
   \<and> bit GBP_STATUS_MASK_FULL n = (n = 2)
   \<and> bit GBP_STATUS_MASK_BUSY n = (n = 1)
   \<and> bit GBP_STATUS_MASK_SUM n = (n = 0)
   \<and> GBP_STATUS_MASK_LOWBAT AND GBP_STATUS_MASK_ER2 = 0
   \<and> GBP_STATUS_MASK_LOWBAT AND GBP_STATUS_MASK_ER1 = 0
   \<and> GBP_STATUS_MASK_LOWBAT AND GBP_STATUS_MASK_ER0 = 0
   \<and> GBP_STATUS_MASK_LOWBAT AND GBP_STATUS_MASK_UNTRAN = 0
   \<and> GBP_STATUS_MASK_LOWBAT AND GBP_STATUS_MASK_FULL = 0
   \<and> GBP_STATUS_MASK_LOWBAT AND GBP_STATUS_MASK_BUSY = 0
   \<and> GBP_STATUS_MASK_LOWBAT AND GBP_STATUS_MASK_SUM = 0
   \<and> GBP_STATUS_MASK_ER2 AND GBP_STATUS_MASK_ER1 = 0
   \<and> GBP_STATUS_MASK_ER2 AND GBP_STATUS_MASK_ER0 = 0
   \<and> GBP_STATUS_MASK_ER2 AND GBP_STATUS_MASK_UNTRAN = 0
   \<and> GBP_STATUS_MASK_ER2 AND GBP_STATUS_MASK_FULL = 0
   \<and> GBP_STATUS_MASK_ER2 AND GBP_STATUS_MASK_BUSY = 0
   \<and> GBP_STATUS_MASK_ER2 AND GBP_STATUS_MASK_SUM = 0
   \<and> GBP_STATUS_MASK_ER1 AND GBP_STATUS_MASK_ER0 = 0
   \<and> GBP_STATUS_MASK_ER1 AND GBP_STATUS_MASK_UNTRAN = 0
   \<and> GBP_STATUS_MASK_ER1 AND GBP_STATUS_MASK_FULL = 0
   \<and> GBP_STATUS_MASK_ER1 AND GBP_STATUS_MASK_BUSY = 0
   \<and> GBP_STATUS_MASK_ER1 AND GBP_STATUS_MASK_SUM = 0
   \<and> GBP_STATUS_MASK_ER0 AND GBP_STATUS_MASK_UNTRAN = 0
   \<and> GBP_STATUS_MASK_ER0 AND GBP_STATUS_MASK_FULL = 0
   \<and> GBP_STATUS_MASK_ER0 AND GBP_STATUS_MASK_BUSY = 0
   \<and> GBP_STATUS_MASK_ER0 AND GBP_STATUS_MASK_SUM = 0
   \<and> GBP_STATUS_MASK_UNTRAN AND GBP_STATUS_MASK_FULL = 0
   \<and> GBP_STATUS_MASK_UNTRAN AND GBP_STATUS_MASK_BUSY = 0
   \<and> GBP_STATUS_MASK_UNTRAN AND GBP_STATUS_MASK_SUM = 0
   \<and> GBP_STATUS_MASK_FULL AND GBP_STATUS_MASK_BUSY = 0
   \<and> GBP_STATUS_MASK_FULL AND GBP_STATUS_MASK_SUM = 0
   \<and> GBP_STATUS_MASK_BUSY AND GBP_STATUS_MASK_SUM = 0
   \<and> uint (gbp_status_byte s) =
        (if low_battery s then GBP_STATUS_MASK_LOWBAT else 0)
        OR (if other_error s then GBP_STATUS_MASK_ER2 else 0)
        OR (if paper_jam s then GBP_STATUS_MASK_ER1 else 0)
        OR (if packet_error s then GBP_STATUS_MASK_ER0 else 0)
        OR (if unprocessed_data s then GBP_STATUS_MASK_UNTRAN else 0)
        OR (if print_buffer_full s then GBP_STATUS_MASK_FULL else 0)
        OR (if printer_busy s then GBP_STATUS_MASK_BUSY else 0)
        OR (if checksum_error s then GBP_STATUS_MASK_SUM else 0)"
proof -
  have masks: "uint (gbp_status_byte s) =
        (if low_battery s then GBP_STATUS_MASK_LOWBAT else 0)
        OR (if other_error s then GBP_STATUS_MASK_ER2 else 0)
        OR (if paper_jam s then GBP_STATUS_MASK_ER1 else 0)
        OR (if packet_error s then GBP_STATUS_MASK_ER0 else 0)
        OR (if unprocessed_data s then GBP_STATUS_MASK_UNTRAN else 0)
        OR (if print_buffer_full s then GBP_STATUS_MASK_FULL else 0)
        OR (if printer_busy s then GBP_STATUS_MASK_BUSY else 0)
        OR (if checksum_error s then GBP_STATUS_MASK_SUM else 0)"
    by (simp add: uint_gbp_status_byte gbp_status_byte_expr_def status_bit_defs
        status_mask_defs)
  have one_bit: "bit (push_bit k (1::int)) n = (n = k)" for k
    by (auto simp add: bit_simps)
  show ?thesis
    unfolding status_mask_defs status_bit_defs one_bit
    using masks [unfolded status_mask_defs] by simp
qed

subsection \<open>The bit macros\<close>

text \<open>
  C5. For every byte \<open>x\<close> and every bit position \<open>pos\<close> from 0 to 7, \<open>gpb_setBit(x, pos)\<close> is
  \<open>x\<close> with bit \<open>pos\<close> set and \<open>gpb_unsetBit(x, pos)\<close> is \<open>x\<close> with bit \<open>pos\<close> cleared, every
  other bit \<open>n\<close> being that of \<open>x\<close>; \<open>gpb_getBit(x, pos)\<close> is 1 if bit \<open>pos\<close> of \<open>x\<close> is set
  and 0 otherwise.
\<close>

theorem gpb_bit_macros_on_byte:
  fixes x :: uint8_t
  assumes "pos \<le> 7"
  shows "gpb_setBit (uint x) pos = uint (set_bit pos x)
     \<and> bit (gpb_setBit (uint x) pos) n = (if n = pos then True else bit x n)
     \<and> gpb_unsetBit (uint x) pos = uint (unset_bit pos x)
     \<and> bit (gpb_unsetBit (uint x) pos) n = (if n = pos then False else bit x n)
     \<and> gpb_getBit (uint x) pos = (if bit x pos then 1 else 0)"
proof -
  from assms have p8: "pos < 8" by simp
  have byte: "bit (uint x) n = bit x n"
    by (auto simp add: bit_uint_iff dest: bit_imp_le_length)
  have "bit (gpb_setBit (uint x) pos) n = (if n = pos then True else bit x n)"
    by (simp add: bit_gpb_setBit byte)
  moreover have "bit (gpb_unsetBit (uint x) pos) n = (if n = pos then False else bit x n)"
    by (simp add: bit_gpb_unsetBit byte)
  moreover note gpb_setBit_uint [OF p8, of x] gpb_unsetBit_uint [of x pos]
    gpb_getBit_uint [of x pos]
  ultimately show ?thesis
    by (intro conjI)
qed

theorem gpb_bit_macros_on_byte_witness:
  "(2::nat) \<le> 7
   \<and> (gpb_setBit (uint (0x5A::uint8_t)) 2 = uint (set_bit 2 (0x5A::uint8_t))
     \<and> bit (gpb_setBit (uint (0x5A::uint8_t)) 2) 6
         = (if (6::nat) = 2 then True else bit (0x5A::uint8_t) 6)
     \<and> gpb_unsetBit (uint (0x5A::uint8_t)) 2 = uint (unset_bit 2 (0x5A::uint8_t))
     \<and> bit (gpb_unsetBit (uint (0x5A::uint8_t)) 2) 6
         = (if (6::nat) = 2 then False else bit (0x5A::uint8_t) 6)
     \<and> gpb_getBit (uint (0x5A::uint8_t)) 2 = (if bit (0x5A::uint8_t) 2 then 1 else 0))"
proof (rule conjI)
  show h: "(2::nat) \<le> 7" by simp
  show "gpb_setBit (uint (0x5A::uint8_t)) 2 = uint (set_bit 2 (0x5A::uint8_t))
     \<and> bit (gpb_setBit (uint (0x5A::uint8_t)) 2) 6
         = (if (6::nat) = 2 then True else bit (0x5A::uint8_t) 6)
     \<and> gpb_unsetBit (uint (0x5A::uint8_t)) 2 = uint (unset_bit 2 (0x5A::uint8_t))
     \<and> bit (gpb_unsetBit (uint (0x5A::uint8_t)) 2) 6
         = (if (6::nat) = 2 then False else bit (0x5A::uint8_t) 6)
     \<and> gpb_getBit (uint (0x5A::uint8_t)) 2 = (if bit (0x5A::uint8_t) 2 then 1 else 0)"
    by (rule gpb_bit_macros_on_byte [OF h])
qed

text \<open>
  C10. For every status byte \<open>x\<close>, every flag and every truth value \<open>SET\<close>, the flag's macro
  \<open>gpb_status_bit_update_*\<close> leaves in \<open>x\<close> a byte whose bit at the flag's position is \<open>SET\<close>
  and whose other bits are those of \<open>x\<close>; the flag's macro \<open>gpb_status_bit_getbit_*\<close> on the
  updated byte then returns \<open>SET\<close> (1 for true, 0 for false).
\<close>

theorem gpb_status_bit_update_correct:
  "bit (gpb_status_bit_update_low_battery x SET) n
       = (if n = GBP_STATUS_BIT_LOWBAT then SET else bit x n)
   \<and> bit (gpb_status_bit_update_other_error x SET) n
       = (if n = GBP_STATUS_BIT_ER2 then SET else bit x n)
   \<and> bit (gpb_status_bit_update_paper_jam x SET) n
       = (if n = GBP_STATUS_BIT_ER1 then SET else bit x n)
   \<and> bit (gpb_status_bit_update_packet_error x SET) n
       = (if n = GBP_STATUS_BIT_ER0 then SET else bit x n)
   \<and> bit (gpb_status_bit_update_unprocessed_data x SET) n
       = (if n = GBP_STATUS_BIT_UNTRAN then SET else bit x n)
   \<and> bit (gpb_status_bit_update_print_buffer_full x SET) n
       = (if n = GBP_STATUS_BIT_FULL then SET else bit x n)
   \<and> bit (gpb_status_bit_update_printer_busy x SET) n
       = (if n = GBP_STATUS_BIT_BUSY then SET else bit x n)
   \<and> bit (gpb_status_bit_update_checksum_error x SET) n
       = (if n = GBP_STATUS_BIT_SUM then SET else bit x n)
   \<and> gpb_status_bit_getbit_low_battery (gpb_status_bit_update_low_battery x SET)
       = (if SET then 1 else 0)
   \<and> gpb_status_bit_getbit_other_error (gpb_status_bit_update_other_error x SET)
       = (if SET then 1 else 0)
   \<and> gpb_status_bit_getbit_paper_jam (gpb_status_bit_update_paper_jam x SET)
       = (if SET then 1 else 0)
   \<and> gpb_status_bit_getbit_packet_error (gpb_status_bit_update_packet_error x SET)
       = (if SET then 1 else 0)
   \<and> gpb_status_bit_getbit_unprocessed_data (gpb_status_bit_update_unprocessed_data x SET)
       = (if SET then 1 else 0)
   \<and> gpb_status_bit_getbit_print_buffer_full (gpb_status_bit_update_print_buffer_full x SET)
       = (if SET then 1 else 0)
   \<and> gpb_status_bit_getbit_printer_busy (gpb_status_bit_update_printer_busy x SET)
       = (if SET then 1 else 0)
   \<and> gpb_status_bit_getbit_checksum_error (gpb_status_bit_update_checksum_error x SET)
       = (if SET then 1 else 0)"
  by (simp add: update_defs getbit_defs gpb_getBit_uint bit_update_byte status_bit_defs)

subsection \<open>The constants\<close>

text \<open>
  C6. \<open>GBP_SYNC_WORD_0\<close> is 0x88, \<open>GBP_SYNC_WORD_1\<close> is 0x33, and the two bytes joined
  most significant first, \<open>(GBP_SYNC_WORD_0 << 8) | GBP_SYNC_WORD_1\<close>, give 0x8833, the
  value of \<open>GBP_SYNC_WORD\<close>; the same holds of the 16-bit words of these values.
\<close>

theorem sync_word_constants:
  "GBP_SYNC_WORD_0 = 0x88
   \<and> GBP_SYNC_WORD_1 = 0x33
   \<and> push_bit 8 GBP_SYNC_WORD_0 OR GBP_SYNC_WORD_1 = 0x8833
   \<and> push_bit 8 GBP_SYNC_WORD_0 OR GBP_SYNC_WORD_1 = GBP_SYNC_WORD
   \<and> push_bit 8 (word_of_int GBP_SYNC_WORD_0 :: 16 word) OR word_of_int GBP_SYNC_WORD_1
       = (0x8833 :: 16 word)
   \<and> (word_of_int GBP_SYNC_WORD :: 16 word) = 0x8833"
  by (simp add: GBP_SYNC_WORD_0_def GBP_SYNC_WORD_1_def GBP_SYNC_WORD_def)

text \<open>
  C7. The command constants are INIT = 0x01, PRINT = 0x02, DATA = 0x04, BREAK = 0x08 and
  INQUIRY = 0x0F, each between 0 and 255 and no two equal; the compression constants are
  DISABLED = 0x00 and ENABLED = 0x01; the device ID is 0x81, with bit 7 set and the lower
  seven bits equal to the device number 1.
\<close>

theorem protocol_byte_constants:
  "GBP_COMMAND_INIT = 0x01
   \<and> GBP_COMMAND_PRINT = 0x02
   \<and> GBP_COMMAND_DATA = 0x04
   \<and> GBP_COMMAND_BREAK = 0x08
   \<and> GBP_COMMAND_INQUIRY = 0x0F
   \<and> list_all (\<lambda>c. 0 \<le> c \<and> c \<le> 255)
        [GBP_COMMAND_INIT, GBP_COMMAND_PRINT, GBP_COMMAND_DATA, GBP_COMMAND_BREAK,
         GBP_COMMAND_INQUIRY]
   \<and> distinct
        [GBP_COMMAND_INIT, GBP_COMMAND_PRINT, GBP_COMMAND_DATA, GBP_COMMAND_BREAK,
         GBP_COMMAND_INQUIRY]
   \<and> GBP_COMPRESSION_DISABLED = 0x00
   \<and> GBP_COMPRESSION_ENABLED = 0x01
   \<and> GBP_DEVICE_ID = 0x81
   \<and> bit GBP_DEVICE_ID 7
   \<and> take_bit 7 GBP_DEVICE_ID = 1
   \<and> GBP_DEVICE_ID AND 0x7F = 1"
  by (simp add: GBP_COMMAND_INIT_def GBP_COMMAND_PRINT_def GBP_COMMAND_DATA_def
      GBP_COMMAND_BREAK_def GBP_COMMAND_INQUIRY_def GBP_COMPRESSION_DISABLED_def
      GBP_COMPRESSION_ENABLED_def GBP_DEVICE_ID_def)

text \<open>
  C8. The print-instruction payload has 4 bytes, and the index constants are sheets = 0,
  linefeed = 1, palette = 2, density = 3: in that order they are exactly the positions of
  a 4-byte payload.
\<close>

theorem print_instruct_payload_layout:
  "GBP_PRINT_INSTRUCT_PAYLOAD_SIZE = 4
   \<and> GBP_PRINT_INSTRUCT_INDEX_NUM_OF_SHEETS = 0
   \<and> GBP_PRINT_INSTRUCT_INDEX_NUM_OF_LINEFEED = 1
   \<and> GBP_PRINT_INSTRUCT_INDEX_PALETTE_VALUE = 2
   \<and> GBP_PRINT_INSTRUCT_INDEX_PRINT_DENSITY = 3
   \<and> [GBP_PRINT_INSTRUCT_INDEX_NUM_OF_SHEETS, GBP_PRINT_INSTRUCT_INDEX_NUM_OF_LINEFEED,
       GBP_PRINT_INSTRUCT_INDEX_PALETTE_VALUE, GBP_PRINT_INSTRUCT_INDEX_PRINT_DENSITY]
      = [0 ..< GBP_PRINT_INSTRUCT_PAYLOAD_SIZE]"
  by (simp add: GBP_PRINT_INSTRUCT_PAYLOAD_SIZE_def
      GBP_PRINT_INSTRUCT_INDEX_NUM_OF_SHEETS_def GBP_PRINT_INSTRUCT_INDEX_NUM_OF_LINEFEED_def
      GBP_PRINT_INSTRUCT_INDEX_PALETTE_VALUE_def GBP_PRINT_INSTRUCT_INDEX_PRINT_DENSITY_def
      upt_rec)

end
